theory Spec2Isabelle
  imports Complex_Main
begin

section \<open>Data model of the collections route\<close>

text \<open>
  Amounts are the values of the numeric columns and of JSON numbers, taken as exact
  rationals. A timestamp is a point in time in milliseconds since the epoch, as a
  JavaScript \<open>Date\<close> holds it. Every column is nullable (\<open>None\<close> is SQL NULL).
\<close>

type_synonym amount = rat
type_synonym timestamp = int

text \<open>
  A value of the JSON request body (\<open>JUndefined\<close>: the key is absent). A number is finite;
  NaN is not JSON, and a literal that overflows to Infinity is above every bound of the
  handler.
\<close>

datatype json = JUndefined | JNull | JBool bool | JNum rat | JStr string | JCompound

text \<open>A row of table \<open>student_membership_history\<close>; the primary key \<open>id\<close> is the key of the table.\<close>

record history_row =
  student_id :: "int option"
  name :: "string option"
  email :: "string option"
  phone :: "string option"
  address :: "string option"
  membership_start :: "timestamp option"
  membership_end :: "timestamp option"
  status :: "string option"
  total_fee :: "amount option"
  amount_paid :: "amount option"
  due_amount :: "amount option"
  cash :: "amount option"
  online :: "amount option"
  security_money :: "amount option"
  remark :: "string option"
  seat_id :: "int option"
  shift_id :: "int option"
  branch_id :: "int option"
  registration_number :: "string option"
  father_name :: "string option"
  aadhar_number :: "string option"
  profile_image_url :: "string option"
  aadhaar_front_url :: "string option"
  aadhaar_back_url :: "string option"
  locker_id :: "int option"
  changed_at :: "timestamp option"
  prev_due_paid :: "bool option"
  source_month :: "string option"

text \<open>
  A row of table \<open>students\<close>, the snapshot: the columns the route writes (\<open>cash\<close>,
  \<open>online\<close>, \<open>amount_paid\<close>, \<open>due_amount\<close>) and two it never touches.
\<close>

record student_row =
  stu_name :: "string option"
  stu_total_fee :: "amount option"
  stu_amount_paid :: "amount option"
  stu_due_amount :: "amount option"
  stu_cash :: "amount option"
  stu_online :: "amount option"

text \<open>
  The database: the two tables of the reconciliation, and the \<open>title\<close> of \<open>schedules\<close>
  and the \<open>name\<close> of \<open>branches\<close>, which the same-month read-back joins in.
\<close>

record db =
  student_membership_history :: "int \<rightharpoonup> history_row"
  students :: "int \<rightharpoonup> student_row"
  schedules :: "int \<rightharpoonup> string option"
  branches :: "int \<rightharpoonup> string option"

text \<open>
  A pooled client with its transaction: \<open>committed\<close> is what every other reader sees,
  \<open>working\<close> is what the statements of the open transaction read and write.
\<close>

record conn =
  committed :: db
  working :: db

definition BEGIN :: "conn \<Rightarrow> conn" where
  "BEGIN c = c\<lparr>working := committed c\<rparr>"

definition ROLLBACK :: "conn \<Rightarrow> conn" where
  "ROLLBACK c = c\<lparr>working := committed c\<rparr>"

definition COMMIT :: "conn \<Rightarrow> conn" where
  "COMMIT c = c\<lparr>committed := working c\<rparr>"

text \<open>The statements the two handlers send, and the exception of one that throws.\<close>

datatype query =
    Q_BEGIN | Q_SELECT_HISTORY | Q_SELECT_STUDENT
  | Q_UPDATE_HISTORY | Q_UPDATE_STUDENT | Q_INSERT_HISTORY | Q_SELECT_UPDATED | Q_COMMIT
  | Q_DELETE_CHECK | Q_DELETE

datatype exn = DbError query | TypeError

text \<open>
  What a request meets outside the database rows: the clock of the server (\<open>new Date()\<close>),
  the clock of the database (\<open>NOW()\<close>), the id the sequence of \<open>student_membership_history\<close>
  hands to an INSERT, and which statements throw. A ROLLBACK itself is taken to succeed.
\<close>

record env =
  now :: timestamp
  db_now :: timestamp
  nextval :: int
  fails :: "query \<Rightarrow> bool"

text \<open>
  The three methods of \<open>Date\<close> the handler calls. They are the JavaScript runtime's, not
  the repository's, so the handler takes them as a parameter: \<open>getFullYear\<close> and
  \<open>getMonth\<close> read the local calendar, \<open>toISOString\<close> the UTC one.
\<close>

record date_lib =
  getFullYear :: "timestamp \<Rightarrow> int"
  getMonth :: "timestamp \<Rightarrow> int"
  toISOString :: "timestamp \<Rightarrow> string"

text \<open>The \<open>collection\<close> object of the response, and the response: status, message, body.\<close>

record collection =
  c_historyId :: int
  c_studentId :: "int option"
  c_name :: "string option"
  c_shiftTitle :: "string option"
  c_totalFee :: amount
  c_amountPaid :: amount
  c_dueAmount :: amount
  c_cash :: amount
  c_online :: amount
  c_securityMoney :: amount
  c_remark :: string
  c_createdAt :: "timestamp option"
  c_branchId :: "int option"
  c_branchName :: "string option"

datatype response = Response (status_of: nat) (message_of: string) (body_of: "collection option")

section \<open>JavaScript helpers\<close>

text \<open>\<open>parseFloat(v) || 0\<close> on a numeric column: NULL gives NaN, which is falsy.\<close>

definition parseFloat_or0 :: "amount option \<Rightarrow> amount" where
  "parseFloat_or0 v = (case v of None \<Rightarrow> 0 | Some x \<Rightarrow> x)"

text \<open>\<open>new Date(v)\<close> on a timestamp column: \<open>new Date(null)\<close> is the epoch.\<close>

definition new_Date :: "timestamp option \<Rightarrow> timestamp" where
  "new_Date v = (case v of None \<Rightarrow> 0 | Some t \<Rightarrow> t)"

text \<open>\<open>a || b\<close> on ids (0 and null are falsy) and \<open>s || null\<close> on strings (the empty string is falsy).\<close>

definition or_id :: "int option \<Rightarrow> int \<Rightarrow> int" where
  "or_id a b = (case a of None \<Rightarrow> b | Some n \<Rightarrow> if n = 0 then b else n)"

definition or_null :: "string option \<Rightarrow> string option" where
  "or_null s = (case s of None \<Rightarrow> None | Some t \<Rightarrow> if t = [] then None else Some t)"

definition or_empty :: "string option \<Rightarrow> string" where
  "or_empty s = (case s of None \<Rightarrow> [] | Some t \<Rightarrow> t)"

section \<open>PUT /collections/:historyId\<close>

text \<open>
  \<open>isSameMonth\<close>: the year and the month of the row's \<open>changed_at\<close> are those of the
  server's clock.
\<close>

definition isSameMonth :: "date_lib \<Rightarrow> env \<Rightarrow> history_row \<Rightarrow> bool" where
  "isSameMonth L e history =
     (let historyMonth = new_Date (changed_at history) in
      getFullYear L historyMonth = getFullYear L (now e)
      \<and> getMonth L historyMonth = getMonth L (now e))"

text \<open>\<open>SELECT * FROM students WHERE id = $1\<close> with the row's \<open>student_id\<close>; NULL finds nothing.\<close>

definition select_student :: "db \<Rightarrow> int option \<Rightarrow> (int \<times> student_row) option" where
  "select_student d sid =
     (case sid of None \<Rightarrow> None
      | Some i \<Rightarrow> (case students d i of None \<Rightarrow> None | Some s \<Rightarrow> Some (i, s)))"

text \<open>The row the previous-month branch inserts; \<open>changed_at\<close> is \<open>NOW()\<close>.\<close>

definition sourceMonth :: "date_lib \<Rightarrow> history_row \<Rightarrow> string option" where
  "sourceMonth L history =
     (case changed_at history of None \<Rightarrow> None
      | Some t \<Rightarrow> Some (take 7 (toISOString L t)))"

definition inserted_row :: "date_lib \<Rightarrow> env \<Rightarrow> history_row \<Rightarrow> amount \<Rightarrow> amount \<Rightarrow> amount \<Rightarrow> history_row" where
  "inserted_row L e history payment_amount inc_cash inc_online =
     \<lparr> student_id = student_id history, name = name history, email = email history,
       phone = phone history, address = address history,
       membership_start = membership_start history, membership_end = membership_end history,
       status = status history,
       total_fee = Some 0, amount_paid = Some payment_amount, due_amount = Some 0,
       cash = Some inc_cash, online = Some inc_online, security_money = Some 0,
       remark = Some ''Previous month due paid'',
       seat_id = seat_id history, shift_id = shift_id history, branch_id = branch_id history,
       registration_number = registration_number history, father_name = father_name history,
       aadhar_number = aadhar_number history,
       profile_image_url = profile_image_url history,
       aadhaar_front_url = aadhaar_front_url history,
       aadhaar_back_url = aadhaar_back_url history,
       locker_id = locker_id history, changed_at = Some (db_now e),
       prev_due_paid = Some True, source_month = sourceMonth L history \<rparr>"

text \<open>
  The response body. After the INSERT, \<open>updatedHistory\<close> is the row \<open>RETURNING *\<close> gave:
  it has \<open>id\<close> and \<open>changed_at\<close> and no \<open>history_id\<close>, \<open>shift_title\<close>, \<open>created_at\<close>
  or \<open>branch_name\<close>.
\<close>

definition collection_of_inserted :: "int \<Rightarrow> int \<Rightarrow> history_row \<Rightarrow> collection" where
  "collection_of_inserted historyId new_id row =
     \<lparr> c_historyId = or_id (Some new_id) historyId,
       c_studentId = student_id row, c_name = name row, c_shiftTitle = None,
       c_totalFee = parseFloat_or0 (total_fee row),
       c_amountPaid = parseFloat_or0 (amount_paid row),
       c_dueAmount = parseFloat_or0 (due_amount row),
       c_cash = parseFloat_or0 (cash row), c_online = parseFloat_or0 (online row),
       c_securityMoney = parseFloat_or0 (security_money row),
       c_remark = or_empty (remark row), c_createdAt = changed_at row,
       c_branchId = branch_id row, c_branchName = None \<rparr>"

text \<open>
  In the same-month branch \<open>updatedHistory\<close> is the row read back with its shift title and
  branch name (two LEFT JOINs).
\<close>

definition shift_title :: "db \<Rightarrow> history_row \<Rightarrow> string option" where
  "shift_title d row =
     (case shift_id row of None \<Rightarrow> None
      | Some i \<Rightarrow> (case schedules d i of None \<Rightarrow> None | Some t \<Rightarrow> t))"

definition branch_name :: "db \<Rightarrow> history_row \<Rightarrow> string option" where
  "branch_name d row =
     (case branch_id row of None \<Rightarrow> None
      | Some i \<Rightarrow> (case branches d i of None \<Rightarrow> None | Some t \<Rightarrow> t))"

definition collection_of_updated :: "db \<Rightarrow> int \<Rightarrow> history_row \<Rightarrow> collection" where
  "collection_of_updated d historyId row =
     \<lparr> c_historyId = or_id (Some historyId) historyId,
       c_studentId = student_id row, c_name = name row,
       c_shiftTitle = or_null (shift_title d row),
       c_totalFee = parseFloat_or0 (total_fee row),
       c_amountPaid = parseFloat_or0 (amount_paid row),
       c_dueAmount = parseFloat_or0 (due_amount row),
       c_cash = parseFloat_or0 (cash row), c_online = parseFloat_or0 (online row),
       c_securityMoney = parseFloat_or0 (security_money row),
       c_remark = or_empty (remark row), c_createdAt = changed_at row,
       c_branchId = branch_id row, c_branchName = or_null (branch_name d row) \<rparr>"

definition update_history :: "int \<Rightarrow> history_row \<Rightarrow> db \<Rightarrow> db" where
  "update_history i row d =
     d\<lparr>student_membership_history := (student_membership_history d)(i \<mapsto> row)\<rparr>"

definition update_student :: "int \<Rightarrow> student_row \<Rightarrow> db \<Rightarrow> db" where
  "update_student i row d = d\<lparr>students := (students d)(i \<mapsto> row)\<rparr>"

text \<open>
  The previous-month branch: the due of the old row alone goes down, the snapshot takes the
  payment, and a row flagged \<open>prev_due_paid\<close> is inserted under the id the sequence
  gives (an id already in the table violates the primary key, and the INSERT throws).
\<close>

definition inc_cash :: "json \<Rightarrow> amount \<Rightarrow> amount" where
  "inc_cash payment_method payment_amount =
     (if payment_method = JStr ''cash'' then payment_amount else 0)"

definition inc_online :: "json \<Rightarrow> amount \<Rightarrow> amount" where
  "inc_online payment_method payment_amount =
     (if payment_method = JStr ''online'' then payment_amount else 0)"

definition prev_new_due_amount :: "history_row \<Rightarrow> amount \<Rightarrow> amount" where
  "prev_new_due_amount history payment_amount =
     (let current_due_amount = parseFloat_or0 (due_amount history)
      in current_due_amount - payment_amount)"

definition prev_student_update :: "student_row \<Rightarrow> amount \<Rightarrow> json \<Rightarrow> student_row" where
  "prev_student_update student payment_amount payment_method =
     (let stu_cash0 = parseFloat_or0 (stu_cash student);
          stu_online0 = parseFloat_or0 (stu_online student);
          stu_amount_paid0 = parseFloat_or0 (stu_amount_paid student);
          stu_due_amount0 = parseFloat_or0 (stu_due_amount student);
          new_stu_cash = stu_cash0 + inc_cash payment_method payment_amount;
          new_stu_online = stu_online0 + inc_online payment_method payment_amount;
          new_stu_amount_paid = stu_amount_paid0 + payment_amount;
          new_stu_due_amount = max (stu_due_amount0 - payment_amount) 0
      in student\<lparr>stu_cash := Some new_stu_cash, stu_online := Some new_stu_online,
           stu_amount_paid := Some new_stu_amount_paid,
           stu_due_amount := Some new_stu_due_amount\<rparr>)"

definition previous_month_payment ::
  "date_lib \<Rightarrow> env \<Rightarrow> int \<Rightarrow> history_row \<Rightarrow> int \<Rightarrow> student_row \<Rightarrow> amount \<Rightarrow> json \<Rightarrow> conn
     \<Rightarrow> (exn \<times> conn) + (response \<times> conn)" where
  "previous_month_payment L e historyId history studentId student payment_amount payment_method c =
     (if prev_new_due_amount history payment_amount < 0
      then Inr (Response 400 ''Payment exceeds due amount'' None, ROLLBACK c)
      else if fails e Q_UPDATE_HISTORY then Inl (DbError Q_UPDATE_HISTORY, c)
      else
        let c1 = c\<lparr>working := update_history historyId
                     (history\<lparr>due_amount := Some (prev_new_due_amount history payment_amount)\<rparr>)
                     (working c)\<rparr>
        in if fails e Q_UPDATE_STUDENT then Inl (DbError Q_UPDATE_STUDENT, c1)
           else
             let c2 = c1\<lparr>working := update_student studentId
                          (prev_student_update student payment_amount payment_method)
                          (working c1)\<rparr>;
                 new_row = inserted_row L e history payment_amount
                             (inc_cash payment_method payment_amount)
                             (inc_online payment_method payment_amount)
             in if fails e Q_INSERT_HISTORY
                   \<or> student_membership_history (working c2) (nextval e) \<noteq> None
                then Inl (DbError Q_INSERT_HISTORY, c2)
                else
                  let c3 = c2\<lparr>working := update_history (nextval e) new_row (working c2)\<rparr>
                  in if fails e Q_COMMIT then Inl (DbError Q_COMMIT, c3)
                     else Inr (Response 200 ''Payment updated successfully''
                                 (Some (collection_of_inserted historyId (nextval e) new_row)),
                               COMMIT c3))"

text \<open>
  The same-month branch: the payment goes to the row's \<open>cash\<close> or \<open>online\<close>, paid and due
  are recomputed from them and the row's \<open>total_fee\<close>, and the snapshot gets the same four
  values. The row is read back before the COMMIT; the response is built from it after the
  COMMIT, where a missing row (\<open>rows[0]\<close> undefined) would throw a TypeError.
\<close>

definition new_cash :: "history_row \<Rightarrow> amount \<Rightarrow> json \<Rightarrow> amount" where
  "new_cash history payment_amount payment_method =
     (let current_cash = parseFloat_or0 (cash history)
      in if payment_method = JStr ''cash'' then current_cash + payment_amount else current_cash)"

definition new_online :: "history_row \<Rightarrow> amount \<Rightarrow> json \<Rightarrow> amount" where
  "new_online history payment_amount payment_method =
     (let current_online = parseFloat_or0 (online history)
      in if payment_method = JStr ''cash'' then current_online
         else if payment_method = JStr ''online'' then current_online + payment_amount
         else current_online)"

definition new_amount_paid :: "history_row \<Rightarrow> amount \<Rightarrow> json \<Rightarrow> amount" where
  "new_amount_paid history payment_amount payment_method =
     new_cash history payment_amount payment_method
     + new_online history payment_amount payment_method"

definition new_due_amount :: "history_row \<Rightarrow> amount \<Rightarrow> json \<Rightarrow> amount" where
  "new_due_amount history payment_amount payment_method =
     (let current_total_fee = parseFloat_or0 (total_fee history)
      in current_total_fee - new_amount_paid history payment_amount payment_method)"

definition same_month_payment ::
  "env \<Rightarrow> int \<Rightarrow> history_row \<Rightarrow> int \<Rightarrow> student_row \<Rightarrow> amount \<Rightarrow> json \<Rightarrow> conn
     \<Rightarrow> (exn \<times> conn) + (response \<times> conn)" where
  "same_month_payment e historyId history studentId student payment_amount payment_method c =
     (if new_due_amount history payment_amount payment_method < 0
      then Inr (Response 400 ''Payment exceeds due amount'' None, ROLLBACK c)
      else if fails e Q_UPDATE_HISTORY then Inl (DbError Q_UPDATE_HISTORY, c)
      else
        let new_row = history
              \<lparr>cash := Some (new_cash history payment_amount payment_method),
               online := Some (new_online history payment_amount payment_method),
               amount_paid := Some (new_amount_paid history payment_amount payment_method),
               due_amount := Some (new_due_amount history payment_amount payment_method)\<rparr>;
            c1 = c\<lparr>working := update_history historyId new_row (working c)\<rparr>
        in if fails e Q_UPDATE_STUDENT then Inl (DbError Q_UPDATE_STUDENT, c1)
           else
             let c2 = c1\<lparr>working := update_student studentId
                          (student
                             \<lparr>stu_cash := Some (new_cash history payment_amount payment_method),
                              stu_online := Some (new_online history payment_amount payment_method),
                              stu_amount_paid :=
                                Some (new_amount_paid history payment_amount payment_method),
                              stu_due_amount :=
                                Some (new_due_amount history payment_amount payment_method)\<rparr>)
                          (working c1)\<rparr>
             in if fails e Q_SELECT_UPDATED then Inl (DbError Q_SELECT_UPDATED, c2)
                else
                  let updatedHistory = student_membership_history (working c2) historyId
                  in if fails e Q_COMMIT then Inl (DbError Q_COMMIT, c2)
                     else (case updatedHistory of
                             None \<Rightarrow> Inl (TypeError, COMMIT c2)
                           | Some row \<Rightarrow>
                               Inr (Response 200 ''Payment updated successfully''
                                      (Some (collection_of_updated (working c2) historyId row)),
                                    COMMIT c2)))"

text \<open>
  The body of the \<open>try\<close>: validation, the two existence checks, then one of the branches.
  \<open>historyId\<close> is the path parameter as the database reads it for the integer key.
\<close>

definition put_try ::
  "date_lib \<Rightarrow> env \<Rightarrow> int \<Rightarrow> json \<Rightarrow> json \<Rightarrow> conn \<Rightarrow> (exn \<times> conn) + (response \<times> conn)" where
  "put_try L e historyId payment_amount payment_method client =
     (if fails e Q_BEGIN then Inl (DbError Q_BEGIN, client)
      else
        let c = BEGIN client in
        case payment_amount of
          JNum amount \<Rightarrow>
            if amount \<le> 0 then Inr (Response 400 ''Invalid payment_amount'' None, ROLLBACK c)
            else if payment_method \<noteq> JStr ''cash'' \<and> payment_method \<noteq> JStr ''online''
            then Inr (Response 400 ''Invalid payment_method'' None, ROLLBACK c)
            else if fails e Q_SELECT_HISTORY then Inl (DbError Q_SELECT_HISTORY, c)
            else (case student_membership_history (working c) historyId of
                    None \<Rightarrow> Inr (Response 404 ''History record not found'' None, ROLLBACK c)
                  | Some history \<Rightarrow>
                      if fails e Q_SELECT_STUDENT then Inl (DbError Q_SELECT_STUDENT, c)
                      else (case select_student (working c) (student_id history) of
                              None \<Rightarrow> Inr (Response 404 ''Student not found for this history record''
                                             None, ROLLBACK c)
                            | Some (studentId, student) \<Rightarrow>
                                if \<not> isSameMonth L e history
                                then previous_month_payment L e historyId history studentId student
                                       amount payment_method c
                                else same_month_payment e historyId history studentId student
                                       amount payment_method c))
        | _ \<Rightarrow> Inr (Response 400 ''Invalid payment_amount'' None, ROLLBACK c))"

text \<open>
  The handler: the \<open>catch\<close> rolls back and answers 500. The result is the response and
  the database as everyone sees it once the client is released.
\<close>

definition put_collection ::
  "date_lib \<Rightarrow> env \<Rightarrow> int \<Rightarrow> json \<Rightarrow> json \<Rightarrow> db \<Rightarrow> response \<times> db" where
  "put_collection L e historyId payment_amount payment_method d =
     (case put_try L e historyId payment_amount payment_method \<lparr>committed = d, working = d\<rparr> of
        Inl (err, c) \<Rightarrow> (Response 500 ''Server error updating payment'' None, committed (ROLLBACK c))
      | Inr (res, c) \<Rightarrow> (res, committed c))"

section \<open>DELETE /collections/:historyId\<close>







section \<open>A calendar to run the handler on\<close>

text \<open>
  An instance of the \<open>Date\<close> methods for a server whose local time is UTC: the proleptic
  Gregorian calendar of a day count, and the ISO format \<open>YYYY-MM-DDTHH:mm:ss.sssZ\<close> (years
  outside 0..9999 are written with a sign and six digits). \<open>getMonth\<close> counts from 0.
\<close>

definition civil_from_days :: "int \<Rightarrow> int \<times> int \<times> int" where
  "civil_from_days z0 =
     (let z = z0 + 719468;
          era = z div 146097;
          doe = z - era * 146097;
          yoe = (doe - doe div 1460 + doe div 36524 - doe div 146096) div 365;
          doy = doe - (365 * yoe + yoe div 4 - yoe div 100);
          mp = (5 * doy + 2) div 153;
          d = doy - (153 * mp + 2) div 5 + 1;
          m = (if mp < 10 then mp + 3 else mp - 9);
          y = yoe + era * 400 + (if m \<le> 2 then 1 else 0)
      in (y, m, d))"

definition digit_char :: "int \<Rightarrow> char" where
  "digit_char n = ''0123456789'' ! nat (n mod 10)"

fun pad_digits :: "nat \<Rightarrow> int \<Rightarrow> string" where
  "pad_digits 0 n = []"
| "pad_digits (Suc k) n = pad_digits k (n div 10) @ [digit_char n]"

definition iso_year :: "int \<Rightarrow> string" where
  "iso_year y =
     (if 0 \<le> y \<and> y \<le> 9999 then pad_digits 4 y
      else (if y < 0 then ''-'' else ''+'') @ pad_digits 6 \<bar>y\<bar>)"

definition utc_toISOString :: "timestamp \<Rightarrow> string" where
  "utc_toISOString t =
     (let ms = t mod 86400000 in
      case civil_from_days (t div 86400000) of (y, m, d) \<Rightarrow>
        iso_year y @ ''-'' @ pad_digits 2 m @ ''-'' @ pad_digits 2 d @ ''T''
        @ pad_digits 2 (ms div 3600000) @ '':'' @ pad_digits 2 (ms div 60000 mod 60) @ '':''
        @ pad_digits 2 (ms div 1000 mod 60) @ ''.'' @ pad_digits 3 (ms mod 1000) @ ''Z'')"

definition utc_date_lib :: date_lib where
  "utc_date_lib =
     \<lparr> getFullYear = (\<lambda>t. fst (civil_from_days (t div 86400000))),
       getMonth = (\<lambda>t. fst (snd (civil_from_days (t div 86400000))) - 1),
       toISOString = utc_toISOString \<rparr>"

section \<open>What a committed payment has written\<close>

text \<open>The statements of each branch, in the order the handler sends them.\<close>

definition previous_month_writes ::
  "date_lib \<Rightarrow> env \<Rightarrow> int \<Rightarrow> history_row \<Rightarrow> int \<Rightarrow> student_row \<Rightarrow> amount \<Rightarrow> json \<Rightarrow> db \<Rightarrow> db" where
  "previous_month_writes L e historyId history studentId student payment_amount payment_method d =
     update_history (nextval e)
       (inserted_row L e history payment_amount (inc_cash payment_method payment_amount)
          (inc_online payment_method payment_amount))
       (update_student studentId (prev_student_update student payment_amount payment_method)
          (update_history historyId
             (history\<lparr>due_amount := Some (prev_new_due_amount history payment_amount)\<rparr>) d))"

definition same_month_writes ::
  "int \<Rightarrow> history_row \<Rightarrow> int \<Rightarrow> student_row \<Rightarrow> amount \<Rightarrow> json \<Rightarrow> db \<Rightarrow> db" where
  "same_month_writes historyId history studentId student payment_amount payment_method d =
     update_student studentId
       (student\<lparr>stu_cash := Some (new_cash history payment_amount payment_method),
          stu_online := Some (new_online history payment_amount payment_method),
          stu_amount_paid := Some (new_amount_paid history payment_amount payment_method),
          stu_due_amount := Some (new_due_amount history payment_amount payment_method)\<rparr>)
       (update_history historyId
          (history\<lparr>cash := Some (new_cash history payment_amount payment_method),
             online := Some (new_online history payment_amount payment_method),
             amount_paid := Some (new_amount_paid history payment_amount payment_method),
             due_amount := Some (new_due_amount history payment_amount payment_method)\<rparr>) d)"

section \<open>Sequences of payments\<close>










section \<open>A small database to run the handlers on\<close>

text \<open>
  One student with a January row (id 1, due 500) and a February row (id 2) whose stored
  due (300) is below fee minus cash minus online (400); the snapshot has fee 1000, paid 600
  and due 400. The server's clock reads 10 February 2024.
\<close>

definition blank_row :: history_row where
  "blank_row =
     \<lparr> student_id = None, name = None, email = None, phone = None, address = None,
       membership_start = None, membership_end = None, status = None,
       total_fee = None, amount_paid = None, due_amount = None,
       cash = None, online = None, security_money = None, remark = None,
       seat_id = None, shift_id = None, branch_id = None,
       registration_number = None, father_name = None, aadhar_number = None,
       profile_image_url = None, aadhaar_front_url = None, aadhaar_back_url = None,
       locker_id = None, changed_at = None, prev_due_paid = Some False, source_month = None \<rparr>"

definition row_jan :: history_row where
  "row_jan = blank_row
     \<lparr> student_id := Some 7, name := Some ''Asha'', status := Some ''active'',
       total_fee := Some 1000, amount_paid := Some 500, due_amount := Some 500,
       cash := Some 500, online := Some 0, seat_id := Some 12, shift_id := Some 1,
       branch_id := Some 1, changed_at := Some 1705276800000 \<rparr>"

definition row_feb :: history_row where
  "row_feb = blank_row
     \<lparr> student_id := Some 7, name := Some ''Asha'', status := Some ''active'',
       total_fee := Some 1000, amount_paid := Some 600, due_amount := Some 300,
       cash := Some 600, online := Some 0, seat_id := Some 12, shift_id := Some 1,
       branch_id := Some 1, changed_at := Some 1707004800000 \<rparr>"

definition asha :: student_row where
  "asha = \<lparr> stu_name = Some ''Asha'', stu_total_fee = Some 1000, stu_amount_paid = Some 600,
            stu_due_amount = Some 400, stu_cash = Some 600, stu_online = Some 0 \<rparr>"

definition db1 :: db where
  "db1 = \<lparr> student_membership_history = [1 \<mapsto> row_jan, 2 \<mapsto> row_feb],
           students = [7 \<mapsto> asha],
           schedules = [1 \<mapsto> Some ''Morning''],
           branches = [1 \<mapsto> Some ''Main''] \<rparr>"

definition env1 :: env where
  "env1 = \<lparr> now = 1707523200000, db_now = 1707523200500, nextval = 3, fails = (\<lambda>q. False) \<rparr>"







section \<open>The outcomes of the two branches\<close>





text \<open>A branch that answers 200 has passed its guard and committed all its writes.\<close>

lemma previous_month_accepted:
  assumes "previous_month_payment L e hid h sid s a pm c = Inr (res, c')"
    and "status_of res = 200"
  shows "0 \<le> prev_new_due_amount h a"
    and "student_membership_history (working c) (nextval e) = None" and "nextval e \<noteq> hid"
    and "res = Response 200 ''Payment updated successfully''
           (Some (collection_of_inserted hid (nextval e)
              (inserted_row L e h a (inc_cash pm a) (inc_online pm a))))"
    and "committed c' = previous_month_writes L e hid h sid s a pm (working c)"
  using assms
  by (simp_all add: previous_month_payment_def previous_month_writes_def Let_def ROLLBACK_def
      COMMIT_def update_history_def update_student_def split: if_splits) auto

lemma same_month_accepted:
  assumes "same_month_payment e hid h sid s a pm c = Inr (res, c')"
    and "status_of res = 200"
  shows "0 \<le> new_due_amount h a pm"
    and "res = Response 200 ''Payment updated successfully''
           (Some (collection_of_updated (committed c') hid
              (h\<lparr>cash := Some (new_cash h a pm), online := Some (new_online h a pm),
                 amount_paid := Some (new_amount_paid h a pm),
                 due_amount := Some (new_due_amount h a pm)\<rparr>)))"
    and "committed c' = same_month_writes hid h sid s a pm (working c)"
  using assms
  by (simp_all add: same_month_payment_def same_month_writes_def Let_def ROLLBACK_def COMMIT_def
      update_history_def update_student_def split: if_splits) auto

section \<open>The outcomes of the handler\<close>



lemma put_try_accepted:
  assumes "put_try L e hid pa pm \<lparr>committed = d, working = d\<rparr> = Inr (res, c')"
    and "status_of res = 200"
  shows "\<exists>a h sid s. pa = JNum a \<and> 0 < a \<and> (pm = JStr ''cash'' \<or> pm = JStr ''online'')
           \<and> student_membership_history d hid = Some h \<and> student_id h = Some sid
           \<and> students d sid = Some s
           \<and> (if isSameMonth L e h
                then same_month_payment e hid h sid s a pm \<lparr>committed = d, working = d\<rparr>
                else previous_month_payment L e hid h sid s a pm \<lparr>committed = d, working = d\<rparr>)
               = Inr (res, c')"
proof (cases pa)
  case (JNum a)
  have B: "BEGIN \<lparr>committed = d, working = d\<rparr> = \<lparr>committed = d, working = d\<rparr>"
    by (simp add: BEGIN_def)
  show ?thesis
    using assms unfolding put_try_def JNum B Let_def select_student_def
    by (simp split: if_splits option.splits) auto
qed (use assms in \<open>auto simp: put_try_def Let_def split: if_splits\<close>)


lemma put_collection_Inr:
  assumes "put_collection L e hid pa pm d = (res, d')" and "status_of res \<noteq> 500"
  obtains c' where "put_try L e hid pa pm \<lparr>committed = d, working = d\<rparr> = Inr (res, c')"
    and "d' = committed c'"
  using assms by (auto simp: put_collection_def split: sum.splits prod.splits)

text \<open>A request answered 200 was valid, found its row and its student, and ran one branch.\<close>

lemma put_collection_accepted:
  assumes "put_collection L e hid pa pm d = (res, d')" and "status_of res = 200"
  obtains a h sid s c' where "pa = JNum a" and "0 < a"
    and "pm = JStr ''cash'' \<or> pm = JStr ''online''"
    and "student_membership_history d hid = Some h"
    and "student_id h = Some sid" and "students d sid = Some s"
    and "d' = committed c'"
    and "(if isSameMonth L e h
          then same_month_payment e hid h sid s a pm \<lparr>committed = d, working = d\<rparr>
          else previous_month_payment L e hid h sid s a pm \<lparr>committed = d, working = d\<rparr>)
         = Inr (res, c')"
proof -
  from assms obtain c' where T: "put_try L e hid pa pm \<lparr>committed = d, working = d\<rparr> = Inr (res, c')"
    and D: "d' = committed c'"
    by (auto elim: put_collection_Inr)
  from put_try_accepted [OF T assms(2)] D that show ?thesis by blast
qed

text \<open>The two shapes of an accepted payment, by the month of the targeted row.\<close>

lemma put_previous_month:
  assumes "put_collection L e hid pa pm d = (res, d')" and "status_of res = 200"
    and "student_membership_history d hid = Some h" and "\<not> isSameMonth L e h"
  obtains a sid s where "pa = JNum a" and "0 < a"
    and "pm = JStr ''cash'' \<or> pm = JStr ''online''"
    and "student_id h = Some sid" and "students d sid = Some s"
    and "0 \<le> prev_new_due_amount h a"
    and "student_membership_history d (nextval e) = None" and "nextval e \<noteq> hid"
    and "res = Response 200 ''Payment updated successfully''
           (Some (collection_of_inserted hid (nextval e)
              (inserted_row L e h a (inc_cash pm a) (inc_online pm a))))"
    and "d' = previous_month_writes L e hid h sid s a pm d"
proof -
  from assms(1,2) obtain a h0 sid s c' where F: "pa = JNum a" "0 < a"
      "pm = JStr ''cash'' \<or> pm = JStr ''online''"
      "student_membership_history d hid = Some h0" "student_id h0 = Some sid"
      "students d sid = Some s" "d' = committed c'"
    and R: "(if isSameMonth L e h0
          then same_month_payment e hid h0 sid s a pm \<lparr>committed = d, working = d\<rparr>
          else previous_month_payment L e hid h0 sid s a pm \<lparr>committed = d, working = d\<rparr>)
         = Inr (res, c')"
    by (rule put_collection_accepted)
  from F(4) assms(3) have H: "h0 = h" by simp
  from R H assms(4)
  have P: "previous_month_payment L e hid h sid s a pm \<lparr>committed = d, working = d\<rparr> = Inr (res, c')"
    by simp
  from previous_month_accepted [OF P assms(2)] F H that show ?thesis by simp
qed

lemma put_same_month:
  assumes "put_collection L e hid pa pm d = (res, d')" and "status_of res = 200"
    and "student_membership_history d hid = Some h" and "isSameMonth L e h"
  obtains a sid s where "pa = JNum a" and "0 < a"
    and "pm = JStr ''cash'' \<or> pm = JStr ''online''"
    and "student_id h = Some sid" and "students d sid = Some s"
    and "0 \<le> new_due_amount h a pm"
    and "res = Response 200 ''Payment updated successfully''
           (Some (collection_of_updated d' hid
              (h\<lparr>cash := Some (new_cash h a pm), online := Some (new_online h a pm),
                 amount_paid := Some (new_amount_paid h a pm),
                 due_amount := Some (new_due_amount h a pm)\<rparr>)))"
    and "d' = same_month_writes hid h sid s a pm d"
proof -
  from assms(1,2) obtain a h0 sid s c' where F: "pa = JNum a" "0 < a"
      "pm = JStr ''cash'' \<or> pm = JStr ''online''"
      "student_membership_history d hid = Some h0" "student_id h0 = Some sid"
      "students d sid = Some s" "d' = committed c'"
    and R: "(if isSameMonth L e h0
          then same_month_payment e hid h0 sid s a pm \<lparr>committed = d, working = d\<rparr>
          else previous_month_payment L e hid h0 sid s a pm \<lparr>committed = d, working = d\<rparr>)
         = Inr (res, c')"
    by (rule put_collection_accepted)
  from F(4) assms(3) have H: "h0 = h" by simp
  from R H assms(4)
  have P: "same_month_payment e hid h sid s a pm \<lparr>committed = d, working = d\<rparr> = Inr (res, c')"
    by simp
  from same_month_accepted [OF P assms(2)] F H that show ?thesis by simp
qed

text \<open>Conversely: a valid request that passes the guard, with no statement throwing, is answered 200.\<close>

lemma put_previous_month_run:
  assumes "\<forall>q. \<not> fails e q" and "0 < a" and "pm = JStr ''cash'' \<or> pm = JStr ''online''"
    and "student_membership_history d hid = Some h" and "student_id h = Some sid"
    and "students d sid = Some s" and "\<not> isSameMonth L e h"
    and "a \<le> parseFloat_or0 (due_amount h)"
    and "student_membership_history d (nextval e) = None"
  shows "put_collection L e hid (JNum a) pm d =
           (Response 200 ''Payment updated successfully''
              (Some (collection_of_inserted hid (nextval e)
                 (inserted_row L e h a (inc_cash pm a) (inc_online pm a)))),
            previous_month_writes L e hid h sid s a pm d)"
proof -
  from assms(4,9) have N: "nextval e \<noteq> hid" by auto
  have P: "previous_month_payment L e hid h sid s a pm \<lparr>committed = d, working = d\<rparr> =
      Inr (Response 200 ''Payment updated successfully''
              (Some (collection_of_inserted hid (nextval e)
                 (inserted_row L e h a (inc_cash pm a) (inc_online pm a)))),
           \<lparr>committed = previous_month_writes L e hid h sid s a pm d,
            working = previous_month_writes L e hid h sid s a pm d\<rparr>)"
    using assms(1,8,9) N
    by (simp add: previous_month_payment_def previous_month_writes_def prev_new_due_amount_def
        Let_def COMMIT_def update_history_def update_student_def)
  have "put_try L e hid (JNum a) pm \<lparr>committed = d, working = d\<rparr> =
      previous_month_payment L e hid h sid s a pm \<lparr>committed = d, working = d\<rparr>"
    using assms(1-7) by (auto simp: put_try_def BEGIN_def Let_def select_student_def)
  with P show ?thesis by (simp add: put_collection_def)
qed

lemma put_same_month_run:
  assumes "\<forall>q. \<not> fails e q" and "0 < a" and "pm = JStr ''cash'' \<or> pm = JStr ''online''"
    and "student_membership_history d hid = Some h" and "student_id h = Some sid"
    and "students d sid = Some s" and "isSameMonth L e h"
    and "0 \<le> new_due_amount h a pm"
  shows "put_collection L e hid (JNum a) pm d =
           (Response 200 ''Payment updated successfully''
              (Some (collection_of_updated (same_month_writes hid h sid s a pm d) hid
                 (h\<lparr>cash := Some (new_cash h a pm), online := Some (new_online h a pm),
                    amount_paid := Some (new_amount_paid h a pm),
                    due_amount := Some (new_due_amount h a pm)\<rparr>))),
            same_month_writes hid h sid s a pm d)"
proof -
  have P: "same_month_payment e hid h sid s a pm \<lparr>committed = d, working = d\<rparr> =
      Inr (Response 200 ''Payment updated successfully''
              (Some (collection_of_updated (same_month_writes hid h sid s a pm d) hid
                 (h\<lparr>cash := Some (new_cash h a pm), online := Some (new_online h a pm),
                    amount_paid := Some (new_amount_paid h a pm),
                    due_amount := Some (new_due_amount h a pm)\<rparr>))),
           \<lparr>committed = same_month_writes hid h sid s a pm d,
            working = same_month_writes hid h sid s a pm d\<rparr>)"
    using assms(1,8)
    by (simp add: same_month_payment_def same_month_writes_def
        Let_def COMMIT_def update_history_def update_student_def)
  have "put_try L e hid (JNum a) pm \<lparr>committed = d, working = d\<rparr> =
      same_month_payment e hid h sid s a pm \<lparr>committed = d, working = d\<rparr>"
    using assms(1-7) by (auto simp: put_try_def BEGIN_def Let_def select_student_def)
  with P show ?thesis by (simp add: put_collection_def)
qed

section \<open>The values the branches write\<close>


lemma writes_lookup:
  "student_membership_history (update_history i r d) j
     = (if j = i then Some r else student_membership_history d j)"
  "students (update_history i r d) = students d"
  "student_membership_history (update_student k s d) = student_membership_history d"
  "students (update_student k s d) j = (if j = k then Some s else students d j)"
  by (simp_all add: update_history_def update_student_def)




section \<open>The handlers on the small database\<close>

lemma day_jan: "civil_from_days 19737 = (2024, 1, 15)"
  by code_simp

lemma day_feb: "civil_from_days 19757 = (2024, 2, 4)"
  by code_simp

lemma day_now: "civil_from_days 19763 = (2024, 2, 10)"
  by code_simp

lemma iso_jan: "take 7 (toISOString utc_date_lib 1705276800000) = ''2024-01''"
  by code_simp

lemma row_jan_previous: "\<not> isSameMonth utc_date_lib env1 row_jan"
  by (simp add: isSameMonth_def utc_date_lib_def env1_def row_jan_def blank_row_def new_Date_def
      day_jan day_now)

lemma row_feb_same: "isSameMonth utc_date_lib env1 row_feb"
  by (simp add: isSameMonth_def utc_date_lib_def env1_def row_feb_def blank_row_def new_Date_def
      day_feb day_now)

lemma db1_rows:
  "student_membership_history db1 1 = Some row_jan"
  "student_membership_history db1 2 = Some row_feb"
  "student_membership_history db1 3 = None"
  "students db1 7 = Some asha"
  by (simp_all add: db1_def)

lemma env1_fields:
  "nextval env1 = 3" "db_now env1 = 1707523200500" "fails env1 q = False"
  by (simp_all add: env1_def)

lemma row_jan_fields:
  "student_id row_jan = Some 7" "total_fee row_jan = Some 1000"
  "amount_paid row_jan = Some 500" "due_amount row_jan = Some 500"
  "cash row_jan = Some 500" "online row_jan = Some 0"
  "changed_at row_jan = Some 1705276800000"
  by (simp_all add: row_jan_def blank_row_def)

lemma row_feb_fields:
  "student_id row_feb = Some 7" "total_fee row_feb = Some 1000"
  "amount_paid row_feb = Some 600" "due_amount row_feb = Some 300"
  "cash row_feb = Some 600" "online row_feb = Some 0"
  by (simp_all add: row_feb_def blank_row_def)

lemma asha_fields:
  "stu_total_fee asha = Some 1000" "stu_amount_paid asha = Some 600"
  "stu_due_amount asha = Some 400" "stu_cash asha = Some 600" "stu_online asha = Some 0"
  by (simp_all add: asha_def)

lemma put_jan_100:
  "put_collection utc_date_lib env1 1 (JNum 100) (JStr ''cash'') db1 =
     (Response 200 ''Payment updated successfully''
        (Some (collection_of_inserted 1 3 (inserted_row utc_date_lib env1 row_jan 100 100 0))),
      previous_month_writes utc_date_lib env1 1 row_jan 7 asha 100 (JStr ''cash'') db1)"
  using put_previous_month_run [of env1 100 "JStr ''cash''" db1 1 row_jan 7 asha utc_date_lib]
  by (simp add: db1_rows env1_fields row_jan_fields row_jan_previous parseFloat_or0_def
      inc_cash_def inc_online_def)

lemma put_jan_450:
  "put_collection utc_date_lib env1 1 (JNum 450) (JStr ''online'') db1 =
     (Response 200 ''Payment updated successfully''
        (Some (collection_of_inserted 1 3 (inserted_row utc_date_lib env1 row_jan 450 0 450))),
      previous_month_writes utc_date_lib env1 1 row_jan 7 asha 450 (JStr ''online'') db1)"
  using put_previous_month_run [of env1 450 "JStr ''online''" db1 1 row_jan 7 asha utc_date_lib]
  by (simp add: db1_rows env1_fields row_jan_fields row_jan_previous parseFloat_or0_def
      inc_cash_def inc_online_def)


lemma put_feb_350:
  "put_collection utc_date_lib env1 2 (JNum 350) (JStr ''online'') db1 =
     (Response 200 ''Payment updated successfully''
        (Some (collection_of_updated (same_month_writes 2 row_feb 7 asha 350 (JStr ''online'') db1) 2
           (row_feb\<lparr>cash := Some 600, online := Some 350,
              amount_paid := Some 950, due_amount := Some 50\<rparr>))),
      same_month_writes 2 row_feb 7 asha 350 (JStr ''online'') db1)"
  using put_same_month_run [of env1 350 "JStr ''online''" db1 2 row_feb 7 asha utc_date_lib]
  by (simp add: db1_rows env1_fields row_feb_fields row_feb_same parseFloat_or0_def
      new_due_amount_def new_amount_paid_def new_cash_def new_online_def)











section \<open>Paid plus due against the fee\<close>




section \<open>Payments over the bound\<close>




section \<open>The same-month branch\<close>




section \<open>The previous-month branch\<close>

text \<open>
  Claim C4. An accepted previous-month payment of amount \<open>a\<close> inserts exactly one history
  row, under the id the sequence gave: fee 0, paid \<open>a\<close>, due 0, the amount in \<open>cash\<close> or
  \<open>online\<close> by the payment method, \<open>prev_due_paid\<close> true, \<open>changed_at\<close> the database's
  \<open>NOW()\<close>, \<open>source_month\<close> the first seven characters (YYYY-MM) of the ISO form of the
  old row's \<open>changed_at\<close> (NULL when that is NULL), and the identity, seat, shift, branch and
  locker columns of the old row. The response body is built from that row.
\<close>

theorem previous_month_inserted_row:
  assumes "put_collection L e hid pa pm d = (res, d')" and "status_of res = 200"
    and "student_membership_history d hid = Some h" and "\<not> isSameMonth L e h"
    and "pa = JNum a"
  shows "student_membership_history d (nextval e) = None
       \<and> dom (student_membership_history d')
           = insert (nextval e) (dom (student_membership_history d))
       \<and> student_membership_history d' (nextval e) = Some
           \<lparr> student_id = student_id h, name = name h, email = email h, phone = phone h,
             address = address h, membership_start = membership_start h,
             membership_end = membership_end h, status = status h,
             total_fee = Some 0, amount_paid = Some a, due_amount = Some 0,
             cash = Some (if pm = JStr ''cash'' then a else 0),
             online = Some (if pm = JStr ''online'' then a else 0),
             security_money = Some 0, remark = Some ''Previous month due paid'',
             seat_id = seat_id h, shift_id = shift_id h, branch_id = branch_id h,
             registration_number = registration_number h, father_name = father_name h,
             aadhar_number = aadhar_number h, profile_image_url = profile_image_url h,
             aadhaar_front_url = aadhaar_front_url h, aadhaar_back_url = aadhaar_back_url h,
             locker_id = locker_id h, changed_at = Some (db_now e),
             prev_due_paid = Some True,
             source_month = map_option (\<lambda>t. take 7 (toISOString L t)) (changed_at h) \<rparr>
       \<and> (pm = JStr ''cash'' \<or> pm = JStr ''online'')
       \<and> body_of res = Some
           \<lparr> c_historyId = (if nextval e = 0 then hid else nextval e),
             c_studentId = student_id h, c_name = name h, c_shiftTitle = None,
             c_totalFee = 0, c_amountPaid = a, c_dueAmount = 0,
             c_cash = (if pm = JStr ''cash'' then a else 0),
             c_online = (if pm = JStr ''online'' then a else 0),
             c_securityMoney = 0, c_remark = ''Previous month due paid'',
             c_createdAt = Some (db_now e), c_branchId = branch_id h, c_branchName = None \<rparr>"
proof -
  from assms(1-4) obtain a0 sid s where F: "pa = JNum a0"
      "pm = JStr ''cash'' \<or> pm = JStr ''online''"
      "student_membership_history d (nextval e) = None" "nextval e \<noteq> hid"
      "res = Response 200 ''Payment updated successfully''
           (Some (collection_of_inserted hid (nextval e)
              (inserted_row L e h a0 (inc_cash pm a0) (inc_online pm a0))))"
      "d' = previous_month_writes L e hid h sid s a0 pm d"
    by (rule put_previous_month)
  from F(1) assms(5) have A: "a0 = a" by simp
  have S: "sourceMonth L h = map_option (\<lambda>t. take 7 (toISOString L t)) (changed_at h)"
    by (cases "changed_at h") (simp_all add: sourceMonth_def)
  have D: "dom (student_membership_history d')
           = insert (nextval e) (dom (student_membership_history d))"
    using F(6) assms(3)
    by (auto simp: previous_month_writes_def writes_lookup split: if_splits)
  have R: "student_membership_history d' (nextval e)
             = Some (inserted_row L e h a (inc_cash pm a) (inc_online pm a))"
    using F(6) A by (simp add: previous_month_writes_def writes_lookup)
  have B: "body_of res = Some (collection_of_inserted hid (nextval e)
              (inserted_row L e h a (inc_cash pm a) (inc_online pm a)))"
    using F(5) A by simp
  show ?thesis
    unfolding R B D
    using F(2,3)
    by (simp add: inserted_row_def S inc_cash_def inc_online_def collection_of_inserted_def
        parseFloat_or0_def or_id_def or_empty_def)
qed

theorem previous_month_inserted_row_witness:
  "student_membership_history db1 3 = None
   \<and> student_membership_history
        (snd (put_collection utc_date_lib env1 1 (JNum 100) (JStr ''cash'') db1)) 3
      = Some (row_jan\<lparr>total_fee := Some 0, amount_paid := Some 100, due_amount := Some 0,
                cash := Some 100, online := Some 0, security_money := Some 0,
                remark := Some ''Previous month due paid'', changed_at := Some 1707523200500,
                prev_due_paid := Some True, source_month := Some ''2024-01''\<rparr>)
   \<and> map_option c_historyId
        (body_of (fst (put_collection utc_date_lib env1 1 (JNum 100) (JStr ''cash'') db1)))
      = Some 3"
  using previous_month_inserted_row [of utc_date_lib env1 1 "JNum 100" "JStr ''cash''" db1
      _ _ row_jan 100, OF put_jan_100]
  by (simp add: db1_rows row_jan_previous row_jan_fields put_jan_100 env1_fields iso_jan)



section \<open>The snapshot after a sequence of payments\<close>







section \<open>Atomicity of a payment update\<close>



section \<open>Validation and existence checks\<close>



section \<open>The snapshot's due stays non-negative\<close>

text \<open>
  Claim C9. After an accepted payment the snapshot's \<open>due_amount\<close> is a value \<open>v \<ge> 0\<close>:
  in the previous-month branch the maximum of the snapshot's due minus the payment and 0,
  in the same-month branch the new due of the row, fee minus cash, online and payment.
\<close>

theorem snapshot_due_not_negative:
  assumes "put_collection L e hid pa pm d = (res, d')" and "status_of res = 200"
    and "student_membership_history d hid = Some h" and "student_id h = Some sid"
    and "students d sid = Some s" and "pa = JNum a"
  shows "\<exists>v. (\<exists>s'. students d' sid = Some s' \<and> stu_due_amount s' = Some v) \<and> 0 \<le> v
           \<and> (\<not> isSameMonth L e h
                \<longrightarrow> v = max (parseFloat_or0 (stu_due_amount s) - a) 0)
           \<and> (isSameMonth L e h
                \<longrightarrow> v = parseFloat_or0 (total_fee h)
                          - (parseFloat_or0 (cash h) + parseFloat_or0 (online h) + a)
                    \<and> (\<exists>h'. student_membership_history d' hid = Some h'
                             \<and> due_amount h' = Some v))"
proof (cases "isSameMonth L e h")
  case True
  from assms(1-3) True obtain a0 sid0 s0 where F: "pa = JNum a0"
      "pm = JStr ''cash'' \<or> pm = JStr ''online''"
      "student_id h = Some sid0" "students d sid0 = Some s0"
      "0 \<le> new_due_amount h a0 pm" "d' = same_month_writes hid h sid0 s0 a0 pm d"
    by (rule put_same_month)
  from F(1,3,4) assms(4-6) have E: "a0 = a" "sid0 = sid" "s0 = s" by simp_all
  have V: "new_due_amount h a pm
             = parseFloat_or0 (total_fee h)
               - (parseFloat_or0 (cash h) + parseFloat_or0 (online h) + a)"
    using F(2) by (auto simp: new_due_amount_def new_amount_paid_def new_cash_def new_online_def)
  show ?thesis
    using True F(5,6) E V
    by (intro exI [of _ "new_due_amount h a pm"]) (simp add: same_month_writes_def writes_lookup)
next
  case False
  from assms(1-3) False obtain a0 sid0 s0 where F: "pa = JNum a0"
      "student_id h = Some sid0" "students d sid0 = Some s0"
      "d' = previous_month_writes L e hid h sid0 s0 a0 pm d"
    by (rule put_previous_month)
  from F(1-3) assms(4-6) have E: "a0 = a" "sid0 = sid" "s0 = s" by simp_all
  show ?thesis
    using False F(4) E
    by (intro exI [of _ "max (parseFloat_or0 (stu_due_amount s) - a) 0"])
      (simp add: previous_month_writes_def writes_lookup prev_student_update_def)
qed

theorem snapshot_due_not_negative_witness:
  "stu_due_amount asha = Some 400
   \<and> map_option stu_due_amount
       (students (snd (put_collection utc_date_lib env1 1 (JNum 450) (JStr ''online'') db1)) 7)
     = Some (Some 0)
   \<and> map_option stu_due_amount
       (students (snd (put_collection utc_date_lib env1 2 (JNum 350) (JStr ''online'') db1)) 7)
     = Some (Some 50)"
  using snapshot_due_not_negative [of utc_date_lib env1 1 "JNum 450" "JStr ''online''" db1
      _ _ row_jan 7 asha 450, OF put_jan_450]
    snapshot_due_not_negative [of utc_date_lib env1 2 "JNum 350" "JStr ''online''" db1
      _ _ row_feb 7 asha 350, OF put_feb_350]
  by (auto simp: db1_rows row_jan_previous row_feb_same row_jan_fields row_feb_fields
      put_jan_450 put_feb_350 asha_fields parseFloat_or0_def)

section \<open>Deleting a collection record\<close>




end
